theory Spec2Isabelle
  imports Main
begin

section \<open>The multi-screen signing modal (MultiScreenModal.js)\<close>

text \<open>
  A shallow embedding of \<^verbatim>\<open>src/components/SigningModal/MultiScreenModal.js\<close>.

  \<^item> JavaScript numbers that the component handles are pixel counts and step indices; they are
    modelled as \<open>int\<close>.
  \<^item> An optional property of an object (\<^verbatim>\<open>undefined\<close> when absent) is an \<open>option\<close>.
  \<^item> A callback \<^verbatim>\<open>() => void\<close> is a transformer of the state of the world it acts on
    (\<open>'w callback\<close>); calling it once is applying it once.
  \<^item> A render function returns the properties it hands to the primitive it renders; a
    \<^verbatim>\<open>TypeError\<close> thrown while rendering is the left summand of the result.
  \<^item> \<^verbatim>\<open>GU\<close>, \<^verbatim>\<open>noop\<close> and \<^verbatim>\<open>springs\<close> come from the library
    \<^verbatim>\<open>@aragon/ui\<close>: \<open>GU\<close> is a parameter of every definition that uses it, \<open>noop\<close> is
    the callback that does nothing, and the presets of \<open>springs\<close> are named values.
\<close>

subsection \<open>Values of the host language\<close>

datatype error = TypeError

type_synonym 'w callback = "'w \<Rightarrow> 'w"

text \<open>\<^verbatim>\<open>noop\<close> of \<^verbatim>\<open>@aragon/ui\<close>: \<^verbatim>\<open>() => {}\<close>.\<close>

definition noop :: "'w callback" where
  "noop w = w"

text \<open>Truthiness of a value that is a boolean or \<^verbatim>\<open>undefined\<close>.\<close>

definition truthy :: "bool option \<Rightarrow> bool" where
  "truthy b = (case b of None \<Rightarrow> False | Some v \<Rightarrow> v)"

text \<open>
  \<^verbatim>\<open>a || b\<close> where \<open>a\<close> is a number or \<^verbatim>\<open>undefined\<close>: the number \<open>0\<close> is falsy, as
  \<^verbatim>\<open>undefined\<close> is.
\<close>

definition or_default :: "int option \<Rightarrow> int \<Rightarrow> int" where
  "or_default a b = (case a of None \<Rightarrow> b | Some n \<Rightarrow> if n = 0 then b else n)"

text \<open>The presets \<^verbatim>\<open>springs.swift\<close>, \<^verbatim>\<open>springs.instant\<close>, \<^verbatim>\<open>springs.smooth\<close>.\<close>

datatype springs = springs_swift | springs_instant | springs_smooth

subsection \<open>Screens and the navigation interface\<close>

text \<open>The object a screen's \<^verbatim>\<open>content\<close> function receives (lines 116--120).\<close>

record 'cb navigationApi =
  prevScreen :: 'cb
  nextScreen :: 'cb
  closeModal :: 'cb

text \<open>A screen descriptor (the shape of \<^verbatim>\<open>propTypes.screens\<close>, lines 68--75).\<close>

record ('cb, 'ui) screen =
  title :: "string option"
  content :: "('cb navigationApi \<Rightarrow> 'ui) option"
  disableClose :: "bool option"
  width :: "int option"

definition DEFAULT_MODAL_WIDTH :: "int \<Rightarrow> int" where
  "DEFAULT_MODAL_WIDTH GU = 80 * GU"

subsection \<open>The hooks of \<^verbatim>\<open>../../hooks\<close>\<close>

text \<open>
  Modelled from the spec: the hook \<^verbatim>\<open>useSteps\<close> is imported from \<^verbatim>\<open>../../hooks\<close>,
  a module that is not among the sources. The specification (section 4.1) gives its contract:
  \<^verbatim>\<open>next()\<close>: if \<open>step < stepCount - 1\<close>, increments step, sets direction = +1, otherwise
  no-op; \<^verbatim>\<open>prev()\<close>: if \<open>step > 0\<close>, decrements step, sets direction = -1, otherwise no-op.
  The step count is the argument of the hook (\<^verbatim>\<open>useSteps(screens.length)\<close>, line 212);
  the sequencer starts at step 0 with the neutral direction 0.
\<close>

record useSteps_state =
  step :: int
  direction :: int

text \<open>
  Modelled from the spec: the state \<^verbatim>\<open>useSteps\<close> starts from; the hook is not among the
  sources. The testable properties count the calls of \<^verbatim>\<open>next()\<close> from step 0, and the
  direction is one of -1, 0, +1 and is set only by a call that moves.
\<close>

definition useSteps_init :: useSteps_state where
  "useSteps_init = \<lparr>step = 0, direction = 0\<rparr>"

text \<open>
  Modelled from the spec: \<^verbatim>\<open>next\<close> of \<^verbatim>\<open>useSteps\<close>; the hook is not among the sources.
  "If \<open>step < stepCount - 1\<close>, increments step, sets direction = +1. Otherwise no-op."
\<close>

definition useSteps_next :: "int \<Rightarrow> useSteps_state \<Rightarrow> useSteps_state" where
  "useSteps_next steps s =
     (if step s < steps - 1 then s\<lparr>step := step s + 1, direction := 1\<rparr> else s)"

text \<open>
  Modelled from the spec: \<^verbatim>\<open>prev\<close> of \<^verbatim>\<open>useSteps\<close>; the hook is not among the sources.
  "If \<open>step > 0\<close>, decrements step, sets direction = -1. Otherwise no-op."
\<close>

definition useSteps_prev :: "int \<Rightarrow> useSteps_state \<Rightarrow> useSteps_state" where
  "useSteps_prev steps s =
     (if step s > 0 then s\<lparr>step := step s - 1, direction := - 1\<rparr> else s)"

text \<open>A navigation request, and a sequence of them run in order.\<close>

datatype navigation = Next | Prev

fun navigate :: "int \<Rightarrow> navigation \<Rightarrow> useSteps_state \<Rightarrow> useSteps_state" where
  "navigate steps Next s = useSteps_next steps s"
| "navigate steps Prev s = useSteps_prev steps s"

fun navigate_all :: "int \<Rightarrow> navigation list \<Rightarrow> useSteps_state \<Rightarrow> useSteps_state" where
  "navigate_all steps [] s = s"
| "navigate_all steps (n # ns) s = navigate_all steps ns (navigate steps n s)"

text \<open>
  Modelled from the spec: the hook \<^verbatim>\<open>useDeferredAnimation\<close> is imported from
  \<^verbatim>\<open>../../hooks\<close> as well. The specification (section 4.3): before the first
  animation-start notification is received the flag is true; after the first notification the
  flag becomes false permanently for the life of the controller instance. The hook returns the
  pair of the flag and the notification callback (line 87).
\<close>

record deferredAnimation =
  animationStarted :: bool

text \<open>
  Modelled from the spec: the gate of \<^verbatim>\<open>useDeferredAnimation\<close> when the controller mounts;
  the hook is not among the sources. No notification has been received.
\<close>

definition useDeferredAnimation_init :: deferredAnimation where
  "useDeferredAnimation_init = \<lparr>animationStarted = False\<rparr>"

text \<open>
  Modelled from the spec: the flag \<^verbatim>\<open>useDeferredAnimation\<close> returns first; the hook is not
  among the sources. True before the first notification, false after it.
\<close>

definition immediateAnimation :: "deferredAnimation \<Rightarrow> bool" where
  "immediateAnimation g = (\<not> animationStarted g)"

text \<open>
  Modelled from the spec: the callback \<^verbatim>\<open>useDeferredAnimation\<close> returns second, the
  animation-start notification; the hook is not among the sources.
\<close>

definition onAnimationStart :: "deferredAnimation \<Rightarrow> deferredAnimation" where
  "onAnimationStart g = g\<lparr>animationStarted := True\<rparr>"

text \<open>
  What one controller instance sees of the gate: a query of the flag (a render reads it) or a
  notification. \<open>gate_answers\<close> collects the answers to the queries, in order.
\<close>

datatype gate_event = Query | Notify

fun gate_answers :: "deferredAnimation \<Rightarrow> gate_event list \<Rightarrow> bool list" where
  "gate_answers g [] = []"
| "gate_answers g (Query # es) = immediateAnimation g # gate_answers g es"
| "gate_answers g (Notify # es) = gate_answers (onAnimationStart g) es"

subsection \<open>\<^verbatim>\<open>useScreens\<close> (lines 211--230)\<close>

text \<open>
  \<^verbatim>\<open>getScreen = step => screensState[step]\<close>: reading an array at an index that is not
  one of its positions gives \<^verbatim>\<open>undefined\<close>.
\<close>

definition getScreen :: "('cb, 'ui) screen list \<Rightarrow> int \<Rightarrow> ('cb, 'ui) screen option" where
  "getScreen screensState i =
     (if 0 \<le> i \<and> i < int (length screensState) then Some (screensState ! nat i) else None)"

text \<open>The state \<^verbatim>\<open>useScreens\<close> keeps: the sequencer of \<^verbatim>\<open>useSteps\<close> and \<^verbatim>\<open>screensState\<close>.\<close>

record ('cb, 'ui) useScreens_state =
  steps_state :: useSteps_state
  screensState :: "('cb, 'ui) screen list"

definition useScreens_init :: "('cb, 'ui) screen list \<Rightarrow> ('cb, 'ui) useScreens_state" where
  "useScreens_init screens = \<lparr>steps_state = useSteps_init, screensState = screens\<rparr>"

text \<open>The effect of lines 215--217: \<^verbatim>\<open>setScreensState(screens)\<close> when the list changes.\<close>

definition setScreensState ::
  "('cb, 'ui) screen list \<Rightarrow> ('cb, 'ui) useScreens_state \<Rightarrow> ('cb, 'ui) useScreens_state" where
  "setScreensState screens u = u\<lparr>screensState := screens\<rparr>"

definition currentScreen :: "('cb, 'ui) useScreens_state \<Rightarrow> ('cb, 'ui) screen option" where
  "currentScreen u = getScreen (screensState u) (step (steps_state u))"

subsection \<open>\<^verbatim>\<open>MultiScreenModal\<close> (lines 19--64)\<close>

text \<open>The properties of the component; \<^verbatim>\<open>onClose\<close> may be left out.\<close>

record ('w, 'ui) multiScreenModal_props =
  visible :: "bool option"
  screens :: "('w callback, 'ui) screen list"
  onClose :: "'w callback option"

text \<open>\<^verbatim>\<open>MultiScreenModal.defaultProps = { onClose: noop }\<close> (lines 62--64).\<close>

definition defaultProps_onClose :: "'w callback option \<Rightarrow> 'w callback" where
  "defaultProps_onClose given = (case given of None \<Rightarrow> noop | Some f \<Rightarrow> f)"

text \<open>\<^verbatim>\<open>useState(screens[0])\<close> (line 20): the first screen, \<^verbatim>\<open>undefined\<close> for no screen.\<close>

definition initial_currentScreen :: "('cb, 'ui) screen list \<Rightarrow> ('cb, 'ui) screen option" where
  "initial_currentScreen scrs = (case scrs of [] \<Rightarrow> None | s # _ \<Rightarrow> Some s)"

text \<open>Lines 29--33: the handler given to the modal primitive.\<close>

definition handleModalClose :: "bool option \<Rightarrow> 'w callback \<Rightarrow> 'w callback" where
  "handleModalClose disableClose_cs onClose_cb w =
     (if \<not> truthy disableClose_cs then onClose_cb w else w)"

text \<open>What \<^verbatim>\<open>ModalContent\<close> receives (lines 49--54), the change listener apart.\<close>

record ('w, 'ui) modalContent_props =
  mc_screens :: "('w callback, 'ui) screen list"
  mc_onClose :: "'w callback"
  mc_viewportWidth :: int

text \<open>What the \<^verbatim>\<open>Modal\<close> primitive receives (lines 42--48), with its child.\<close>

record ('w, 'ui) modal_props =
  modal_padding :: int
  modal_width :: int
  modal_onClose :: "'w callback"
  modal_visible :: "bool option"
  modal_closeButton :: bool
  modal_content :: "('w, 'ui) modalContent_props"

text \<open>
  One render of \<^verbatim>\<open>MultiScreenModal\<close>, for the current screen held in its state and the
  width the \<^verbatim>\<open>Viewport\<close> reports. Destructuring a current screen that is
  \<^verbatim>\<open>undefined\<close> (line 21) throws.
\<close>

definition MultiScreenModal ::
  "int \<Rightarrow> ('w, 'ui) multiScreenModal_props \<Rightarrow> ('w callback, 'ui) screen option \<Rightarrow> int
     \<Rightarrow> error + ('w, 'ui) modal_props" where
  "MultiScreenModal GU props current viewport =
     (case current of
        None \<Rightarrow> Inl TypeError
      | Some cs \<Rightarrow>
          (let onClose_cb = defaultProps_onClose (onClose props);
               modalWidth = or_default (width cs) (DEFAULT_MODAL_WIDTH GU);
               viewportWidth = viewport - 4 * GU
           in Inr \<lparr>modal_padding = 0,
                   modal_width = min viewportWidth modalWidth,
                   modal_onClose = handleModalClose (disableClose cs) onClose_cb,
                   modal_visible = visible props,
                   modal_closeButton = (\<not> truthy (disableClose cs)),
                   modal_content =
                     \<lparr>mc_screens = screens props,
                      mc_onClose = onClose_cb,
                      mc_viewportWidth = viewportWidth\<rparr>\<rparr>))"

subsection \<open>\<^verbatim>\<open>ModalContent\<close> (lines 80--208)\<close>

text \<open>The state of lines 85--87 next to that of \<^verbatim>\<open>useScreens\<close>.\<close>

record modalContent_state =
  applyStaticHeight :: bool
  height :: "int option"
  deferred :: deferredAnimation

definition modalContent_init :: modalContent_state where
  "modalContent_init =
     \<lparr>applyStaticHeight = False, height = None, deferred = useDeferredAnimation_init\<rparr>"

text \<open>
  Lines 92--98. \<open>immediate\<close> is the flag the render bound on line 87, which the callback
  closes over; the notification goes to the gate first.
\<close>

definition onStart :: "bool \<Rightarrow> modalContent_state \<Rightarrow> modalContent_state" where
  "onStart immediate s =
     (let s' = s\<lparr>deferred := onAnimationStart (deferred s)\<rparr>
      in if \<not> immediate then s'\<lparr>applyStaticHeight := True\<rparr> else s')"

text \<open>Lines 167--171: the \<^verbatim>\<open>onRest\<close> of the transition, by the status it reports.\<close>

definition onRest :: "string \<Rightarrow> modalContent_state \<Rightarrow> modalContent_state" where
  "onRest status s = (if status = ''update'' then s\<lparr>applyStaticHeight := False\<rparr> else s)"

text \<open>Lines 182--186: the element of a rendered screen reports its \<^verbatim>\<open>clientHeight\<close>.\<close>

definition setHeight :: "int \<Rightarrow> modalContent_state \<Rightarrow> modalContent_state" where
  "setHeight clientHeight s = s\<lparr>height := Some clientHeight\<rparr>"

text \<open>What happens to a mounted \<^verbatim>\<open>ModalContent\<close>, one event at a time.\<close>

datatype modalContent_event = Start bool | Rest string | Measured int

fun modalContent_step :: "modalContent_event \<Rightarrow> modalContent_state \<Rightarrow> modalContent_state" where
  "modalContent_step (Start immediate) s = onStart immediate s"
| "modalContent_step (Rest status) s = onRest status s"
| "modalContent_step (Measured h) s = setHeight h s"

text \<open>The height \<^verbatim>\<open>Spring\<close> (lines 133--138): its preset, its target and whether it jumps.\<close>

record spring_props =
  spring_config :: springs
  spring_to_height :: "int option"
  spring_immediate :: bool

definition height_spring :: "bool \<Rightarrow> modalContent_state \<Rightarrow> spring_props" where
  "height_spring immediate s =
     \<lparr>spring_config = springs_swift, spring_to_height = height s, spring_immediate = immediate\<rparr>"

text \<open>
  Line 143: the height of the container, \<open>animated\<close> being the value the spring hands to its
  child.
\<close>

datatype 'h css_height = Auto | Fixed 'h

definition container_height :: "modalContent_state \<Rightarrow> 'h \<Rightarrow> 'h css_height" where
  "container_height s animated = (if applyStaticHeight s then Fixed animated else Auto)"

text \<open>Lines 147--149: the preset of the transition, by the phase it is asked for.\<close>

definition transition_config :: "string \<Rightarrow> springs" where
  "transition_config state = (if state = ''leave'' then springs_instant else springs_smooth)"

text \<open>Lines 152--166: the styles of the three phases; \<open>translate3d x y z\<close> has \<open>x\<close> in pixels.\<close>

datatype transform = translate3d int int int

fun translate_x :: "transform \<Rightarrow> int" where
  "translate_x (translate3d x y z) = x"

record phase_style =
  style_opacity :: int
  style_transform :: transform
  style_position :: "string option"
  style_top :: "int option"
  style_left :: "int option"

definition transition_from :: "int \<Rightarrow> int \<Rightarrow> phase_style" where
  "transition_from GU dir =
     \<lparr>style_opacity = 0, style_transform = translate3d (5 * GU * dir) 0 0,
      style_position = None, style_top = None, style_left = None\<rparr>"

definition transition_enter :: phase_style where
  "transition_enter =
     \<lparr>style_opacity = 1, style_transform = translate3d 0 0 0,
      style_position = None, style_top = None, style_left = None\<rparr>"

definition transition_leave :: "int \<Rightarrow> int \<Rightarrow> phase_style" where
  "transition_leave GU dir =
     \<lparr>style_opacity = 0, style_transform = translate3d (5 * GU * - dir) 0 0,
      style_position = Some ''absolute'', style_top = Some 0, style_left = Some 0\<rparr>"

text \<open>
  Lines 100--125: the heading and the body of a screen. The body is what the screen's
  \<^verbatim>\<open>content\<close> returns for the navigation interface; calling a \<^verbatim>\<open>content\<close> that is
  \<^verbatim>\<open>undefined\<close> throws.
\<close>

record 'ui rendered_screen =
  heading_style :: string
  heading :: "string option"
  body :: 'ui

definition renderScreen ::
  "bool \<Rightarrow> 'cb \<Rightarrow> 'cb \<Rightarrow> 'cb \<Rightarrow> ('cb, 'ui) screen \<Rightarrow> error + 'ui rendered_screen" where
  "renderScreen smallMode prev nxt onClose_cb scr =
     (case content scr of
        None \<Rightarrow> Inl TypeError
      | Some c \<Rightarrow>
          Inr \<lparr>heading_style = (if smallMode then ''title4'' else ''title3''),
               heading = title scr,
               body = c \<lparr>prevScreen = prev, nextScreen = nxt, closeModal = onClose_cb\<rparr>\<rparr>)"

text \<open>
  Lines 175--202: what the transition renders for one step of those it holds. \<open>None\<close> is the
  empty fragment: no element for this slot.
\<close>

record ('a, 'ui) slot =
  slot_width :: int
  slot_padding :: int
  slot_animProps :: 'a
  slot_screen :: "'ui rendered_screen"

definition render_slot ::
  "int \<Rightarrow> int \<Rightarrow> bool \<Rightarrow> 'cb \<Rightarrow> 'cb \<Rightarrow> 'cb \<Rightarrow> ('cb, 'ui) screen list \<Rightarrow> int \<Rightarrow> 'a
     \<Rightarrow> error + ('a, 'ui) slot option" where
  "render_slot GU viewportWidth smallMode prev nxt onClose_cb screensState_now i animProps =
     (case getScreen screensState_now i of
        None \<Rightarrow> Inr None
      | Some stepScreen \<Rightarrow>
          (case renderScreen smallMode prev nxt onClose_cb stepScreen of
             Inl e \<Rightarrow> Inl e
           | Inr r \<Rightarrow>
               Inr (Some \<lparr>slot_width =
                            min viewportWidth (or_default (width stepScreen) (DEFAULT_MODAL_WIDTH GU)),
                          slot_padding = (if smallMode then 3 * GU else 5 * GU),
                          slot_animProps = animProps,
                          slot_screen = r\<rparr>)))"

subsection \<open>The two components together\<close>

text \<open>
  The state of a mounted \<^verbatim>\<open>MultiScreenModal\<close>: its properties, its own current screen
  (line 20) and the state of \<^verbatim>\<open>useScreens\<close> inside its \<^verbatim>\<open>ModalContent\<close>.
\<close>

record ('w, 'ui) controller =
  ctl_props :: "('w, 'ui) multiScreenModal_props"
  ctl_currentScreen :: "('w callback, 'ui) screen option"
  ctl_useScreens :: "('w callback, 'ui) useScreens_state"

text \<open>Lines 25--27: \<^verbatim>\<open>setCurrentScreen(screen)\<close>.\<close>

definition updateCurrentScreen ::
  "('w callback, 'ui) screen option \<Rightarrow> ('w, 'ui) controller \<Rightarrow> ('w, 'ui) controller" where
  "updateCurrentScreen scr c = c\<lparr>ctl_currentScreen := scr\<rparr>"

text \<open>
  Lines 128--130: the effect that passes the current screen of \<^verbatim>\<open>useScreens\<close>, whatever
  \<^verbatim>\<open>getScreen(step)\<close> gave, to the outer component.
\<close>

definition onScreenChange_effect :: "('w, 'ui) controller \<Rightarrow> ('w, 'ui) controller" where
  "onScreenChange_effect c = updateCurrentScreen (currentScreen (ctl_useScreens c)) c"

text \<open>The mount: \<^verbatim>\<open>useState(screens[0])\<close>, the initial state of the hooks, the effects.\<close>

definition controller_mount :: "('w, 'ui) multiScreenModal_props \<Rightarrow> ('w, 'ui) controller" where
  "controller_mount props =
     onScreenChange_effect
       \<lparr>ctl_props = props,
        ctl_currentScreen = initial_currentScreen (screens props),
        ctl_useScreens = useScreens_init (screens props)\<rparr>"

text \<open>
  A call of \<^verbatim>\<open>next\<close> or \<^verbatim>\<open>prev\<close>: the sequencer of \<^verbatim>\<open>useSteps(screens.length)\<close>
  (line 212) moves, and the effect of lines 128--130 follows the render.
\<close>

definition controller_navigate ::
  "navigation \<Rightarrow> ('w, 'ui) controller \<Rightarrow> ('w, 'ui) controller" where
  "controller_navigate nav c =
     onScreenChange_effect
       (c\<lparr>ctl_useScreens := (ctl_useScreens c)
            \<lparr>steps_state :=
               navigate (int (length (screens (ctl_props c)))) nav
                 (steps_state (ctl_useScreens c))\<rparr>\<rparr>)"

text \<open>
  The caller replaces the list of screens: the effect of lines 215--217 stores the new list,
  the step stays, and the effect of lines 128--130 follows the render with the new list.
\<close>

definition controller_replace ::
  "('w callback, 'ui) screen list \<Rightarrow> ('w, 'ui) controller \<Rightarrow> ('w, 'ui) controller" where
  "controller_replace new c =
     onScreenChange_effect
       (c\<lparr>ctl_props := (ctl_props c)\<lparr>screens := new\<rparr>,
          ctl_useScreens := setScreensState new (ctl_useScreens c)\<rparr>)"

text \<open>The next render of the outer component, and the slot of the current step inside it.\<close>

definition controller_render ::
  "int \<Rightarrow> int \<Rightarrow> ('w, 'ui) controller \<Rightarrow> error + ('w, 'ui) modal_props" where
  "controller_render GU viewport c =
     MultiScreenModal GU (ctl_props c) (ctl_currentScreen c) viewport"

definition controller_slot ::
  "int \<Rightarrow> int \<Rightarrow> bool \<Rightarrow> 'w callback \<Rightarrow> 'w callback \<Rightarrow> 'a \<Rightarrow> ('w, 'ui) controller
     \<Rightarrow> error + ('a, 'ui) slot option" where
  "controller_slot GU viewport smallMode prev nxt animProps c =
     render_slot GU (viewport - 4 * GU) smallMode prev nxt
       (defaultProps_onClose (onClose (ctl_props c)))
       (screensState (ctl_useScreens c))
       (step (steps_state (ctl_useScreens c))) animProps"

subsection \<open>Concrete screens\<close>

text \<open>
  The screens of the specification's close-guard scenario, \<^verbatim>\<open>{title: "A", disableClose: true}\<close>
  and \<^verbatim>\<open>{title: "B"}\<close>, and a screen with a width. The world is the number of calls of
  \<^verbatim>\<open>onClose\<close> so far; the content of a screen returns the interface it was given.
\<close>

abbreviation screen_A :: "(nat callback, nat callback navigationApi) screen" where
  "screen_A \<equiv>
     \<lparr>title = Some ''A'', content = Some (\<lambda>api. api), disableClose = Some True, width = None\<rparr>"

abbreviation screen_B :: "(nat callback, nat callback navigationApi) screen" where
  "screen_B \<equiv>
     \<lparr>title = Some ''B'', content = Some (\<lambda>api. api), disableClose = None, width = None\<rparr>"

abbreviation screen_of_width :: "int \<Rightarrow> (nat callback, nat callback navigationApi) screen" where
  "screen_of_width w \<equiv>
     \<lparr>title = Some ''C'', content = Some (\<lambda>api. api), disableClose = Some False, width = Some w\<rparr>"

abbreviation counting_props ::
  "(nat callback, nat callback navigationApi) screen list
     \<Rightarrow> (nat, nat callback navigationApi) multiScreenModal_props" where
  "counting_props scrs \<equiv> \<lparr>visible = Some True, screens = scrs, onClose = Some Suc\<rparr>"

abbreviation headless_props ::
  "(nat callback, nat callback navigationApi) screen list
     \<Rightarrow> (nat, nat callback navigationApi) multiScreenModal_props" where
  "headless_props scrs \<equiv> \<lparr>visible = Some True, screens = scrs, onClose = None\<rparr>"

text \<open>
  Three screens, the third reached by two calls of \<^verbatim>\<open>next\<close>, and the same controller
  after its caller has replaced the list by the first two screens.
\<close>

abbreviation at_third_screen :: "(nat, nat callback navigationApi) controller" where
  "at_third_screen \<equiv>
     controller_navigate Next (controller_navigate Next
       (controller_mount (counting_props [screen_A, screen_B, screen_of_width 500])))"

abbreviation list_shrunk :: "(nat, nat callback navigationApi) controller" where
  "list_shrunk \<equiv> controller_replace [screen_A, screen_B] at_third_screen"

section \<open>The step sequencer\<close>

lemma navigate_range:
  "0 \<le> step s \<Longrightarrow> step s \<le> N - 1 \<Longrightarrow>
     0 \<le> step (navigate N n s) \<and> step (navigate N n s) \<le> N - 1"
  by (cases n) (simp_all add: useSteps_next_def useSteps_prev_def)

lemma navigate_all_range:
  "0 \<le> step s \<Longrightarrow> step s \<le> N - 1 \<Longrightarrow>
     0 \<le> step (navigate_all N ns s) \<and> step (navigate_all N ns s) \<le> N - 1"
proof (induction ns arbitrary: s)
  case Nil
  then show ?case by simp
next
  case (Cons n ns)
  from navigate_range [OF Cons.prems, of n]
  have "0 \<le> step (navigate N n s)" and "step (navigate N n s) \<le> N - 1" by simp_all
  from Cons.IH [OF this] show ?case by simp
qed

lemma navigate_all_append:
  "navigate_all N (xs @ ys) s = navigate_all N ys (navigate_all N xs s)"
  by (induction xs arbitrary: s) simp_all

lemma next_repeated:
  "step s \<le> N - 1 \<Longrightarrow>
     step (navigate_all N (replicate k Next) s) = min (step s + int k) (N - 1)"
proof (induction k arbitrary: s)
  case 0
  then show ?case by simp
next
  case (Suc k)
  have le: "step (useSteps_next N s) \<le> N - 1"
    using Suc.prems by (simp add: useSteps_next_def)
  have "step (navigate_all N (replicate (Suc k) Next) s)
      = step (navigate_all N (replicate k Next) (useSteps_next N s))" by simp
  also have "\<dots> = min (step (useSteps_next N s) + int k) (N - 1)"
    by (rule Suc.IH [OF le])
  also have "\<dots> = min (step s + int (Suc k)) (N - 1)"
    using Suc.prems by (simp add: useSteps_next_def add.assoc)
  finally show ?case .
qed

text \<open>
  Claim C1. For a sequencer with \<open>stepCount = N\<close> whose step is in the range \<open>[0, N-1]\<close>,
  the step is in that range after every sequence of \<open>next()\<close> and \<open>prev()\<close> calls;
  \<open>next()\<close> at step \<open>N-1\<close> and \<open>prev()\<close> at step \<open>0\<close> leave the state as it is (no
  wrap-around; the functions are total, so nothing is raised); and from step \<open>0\<close>, \<open>N-1\<close>
  calls of \<open>next()\<close> reach step \<open>N-1\<close> and one more call leaves it there.
  The range is not empty exactly when \<open>N \<ge> 1\<close>: the component is given at least one screen.
\<close>

theorem useSteps_step_stays_in_range:
  assumes "0 \<le> step s" and "step s \<le> N - 1"
  shows "(0 \<le> step (navigate_all N ns s) \<and> step (navigate_all N ns s) \<le> N - 1) \<and>
         (step s = N - 1 \<longrightarrow> useSteps_next N s = s) \<and>
         (step s = 0 \<longrightarrow> useSteps_prev N s = s) \<and>
         (step s = 0 \<longrightarrow>
            step (navigate_all N (replicate (nat (N - 1)) Next) s) = N - 1 \<and>
            step (navigate_all N (replicate (nat (N - 1)) Next @ [Next]) s) = N - 1)"
proof -
  have range: "0 \<le> step (navigate_all N ns s) \<and> step (navigate_all N ns s) \<le> N - 1"
    using assms by (rule navigate_all_range)
  have top: "step s = N - 1 \<longrightarrow> useSteps_next N s = s"
    by (simp add: useSteps_next_def)
  have bottom: "step s = 0 \<longrightarrow> useSteps_prev N s = s"
    by (simp add: useSteps_prev_def)
  have climb: "step (navigate_all N (replicate (nat (N - 1)) Next) s) = N - 1" if "step s = 0"
    using next_repeated [OF assms(2), of "nat (N - 1)"] assms that by simp
  have once_more:
    "step (navigate_all N (replicate (nat (N - 1)) Next @ [Next]) s) = N - 1" if "step s = 0"
    using climb [OF that] by (simp add: navigate_all_append useSteps_next_def)
  from range top bottom climb once_more show ?thesis by blast
qed

theorem useSteps_step_stays_in_range_witness:
  "step (navigate_all 3 [Next, Prev, Prev, Next, Next, Next] useSteps_init) = 2 \<and>
   useSteps_next 3 \<lparr>step = 2, direction = 1\<rparr> = \<lparr>step = 2, direction = 1\<rparr> \<and>
   useSteps_prev 3 useSteps_init = useSteps_init \<and>
   step (navigate_all 3 (replicate (nat (3 - 1)) Next) useSteps_init) = 2 \<and>
   step (navigate_all 3 (replicate (nat (3 - 1)) Next @ [Next]) useSteps_init) = 2"
  using useSteps_step_stays_in_range [of useSteps_init 3 "[Next, Prev, Prev, Next, Next, Next]"]
    useSteps_step_stays_in_range [of "\<lparr>step = 2, direction = 1\<rparr>" 3 "[]"]
  by (simp add: useSteps_init_def useSteps_next_def useSteps_prev_def numeral_2_eq_2)

text \<open>
  Claim C6. For every sequencer state: after a \<open>next()\<close> that moves (\<open>step < N - 1\<close>) the
  direction is \<open>+1\<close>; after a \<open>prev()\<close> that moves (\<open>step > 0\<close>) the direction is \<open>-1\<close>;
  a clamped call, \<open>next()\<close> at the last step or \<open>prev()\<close> at step \<open>0\<close>, leaves the direction
  as it was.
\<close>

theorem useSteps_direction:
  "(step s < N - 1 \<longrightarrow> direction (useSteps_next N s) = 1) \<and>
   (0 < step s \<longrightarrow> direction (useSteps_prev N s) = - 1) \<and>
   (\<not> step s < N - 1 \<longrightarrow> direction (useSteps_next N s) = direction s) \<and>
   (\<not> 0 < step s \<longrightarrow> direction (useSteps_prev N s) = direction s)"
  by (simp add: useSteps_next_def useSteps_prev_def)

theorem useSteps_direction_witness:
  "direction (useSteps_next 3 \<lparr>step = 1, direction = - 1\<rparr>) = 1 \<and>
   direction (useSteps_prev 3 \<lparr>step = 1, direction = 1\<rparr>) = - 1 \<and>
   direction (useSteps_next 3 \<lparr>step = 2, direction = - 1\<rparr>) = - 1 \<and>
   direction (useSteps_prev 3 \<lparr>step = 0, direction = 1\<rparr>) = 1"
  using useSteps_direction [of "\<lparr>step = 1, direction = - 1\<rparr>" 3]
    useSteps_direction [of "\<lparr>step = 1, direction = 1\<rparr>" 3]
    useSteps_direction [of "\<lparr>step = 2, direction = - 1\<rparr>" 3]
    useSteps_direction [of "\<lparr>step = 0, direction = 1\<rparr>" 3]
  by simp

section \<open>The deferred-animation gate\<close>

lemma gate_answers_started:
  "animationStarted g \<Longrightarrow>
     gate_answers g es = replicate (length (filter (\<lambda>e. e = Query) es)) False"
  by (induction g es rule: gate_answers.induct)
     (simp_all add: immediateAnimation_def onAnimationStart_def)

lemma gate_answers_before:
  "\<not> animationStarted g \<Longrightarrow>
     gate_answers g (replicate k Query @ es) = replicate k True @ gate_answers g es"
  by (induction k) (simp_all add: immediateAnimation_def)

text \<open>
  Claim C4. For one instance of the gate, every query made before the first animation-start
  notification answers true, and every query made after it answers false, however many
  notifications and queries follow: the answers to \<open>k\<close> queries, a notification and any
  further events are \<open>k\<close> times true and then false for each later query.
\<close>

theorem deferred_animation_gate:
  "gate_answers useDeferredAnimation_init (replicate k Query) = replicate k True \<and>
   gate_answers useDeferredAnimation_init (replicate k Query @ Notify # es)
     = replicate k True @ replicate (length (filter (\<lambda>e. e = Query) es)) False"
proof -
  have fresh: "\<not> animationStarted useDeferredAnimation_init"
    by (simp add: useDeferredAnimation_init_def)
  have started: "animationStarted (onAnimationStart useDeferredAnimation_init)"
    by (simp add: onAnimationStart_def)
  have "gate_answers useDeferredAnimation_init (replicate k Query @ [])
      = replicate k True @ gate_answers useDeferredAnimation_init []"
    by (rule gate_answers_before [OF fresh])
  moreover have "gate_answers useDeferredAnimation_init (replicate k Query @ Notify # es)
      = replicate k True @ gate_answers useDeferredAnimation_init (Notify # es)"
    by (rule gate_answers_before [OF fresh])
  moreover have "gate_answers useDeferredAnimation_init (Notify # es)
      = replicate (length (filter (\<lambda>e. e = Query) es)) False"
    using gate_answers_started [OF started, of es] by simp
  ultimately show ?thesis by simp
qed

theorem deferred_animation_gate_witness:
  "gate_answers useDeferredAnimation_init [Query, Query] = [True, True] \<and>
   gate_answers useDeferredAnimation_init [Query, Query, Notify, Query, Notify, Notify, Query]
     = [True, True, False, False]"
  using deferred_animation_gate [of 2 "[Query, Notify, Notify, Query]"]
  by (simp add: numeral_2_eq_2)

section \<open>The top-level component and the rendered screens\<close>

lemma MultiScreenModal_Some:
  "MultiScreenModal GU props (Some cs) viewport =
     Inr \<lparr>modal_padding = 0,
          modal_width = min (viewport - 4 * GU) (or_default (width cs) (DEFAULT_MODAL_WIDTH GU)),
          modal_onClose = handleModalClose (disableClose cs) (defaultProps_onClose (onClose props)),
          modal_visible = visible props,
          modal_closeButton = (\<not> truthy (disableClose cs)),
          modal_content =
            \<lparr>mc_screens = screens props,
             mc_onClose = defaultProps_onClose (onClose props),
             mc_viewportWidth = viewport - 4 * GU\<rparr>\<rparr>"
  by (simp add: MultiScreenModal_def Let_def)

text \<open>
  A current screen that is \<^verbatim>\<open>undefined\<close>, as the change listener of lines 128--130 reports
  it when the step has no screen, makes the next render of \<^verbatim>\<open>MultiScreenModal\<close> throw.
\<close>

lemma MultiScreenModal_undefined_current:
  "MultiScreenModal GU props None viewport = Inl TypeError"
  by (simp add: MultiScreenModal_def)

lemma truthy_iff: "truthy b \<longleftrightarrow> b = Some True"
  by (cases b) (simp_all add: truthy_def)


lemma getScreen_outside: "i < 0 \<or> int (length ss) \<le> i \<Longrightarrow> getScreen ss i = None"
  by (auto simp add: getScreen_def)

subsection \<open>Closing\<close>

text \<open>
  Claim C2, as stated, fails: not every close request passes the guard. On screen A, whose
  \<open>disableClose\<close> is true, the \<open>closeModal\<close> that the rendered content of the screen receives
  is the supplied \<open>onClose\<close> itself; invoked once in a world where \<open>onClose\<close> was called 0
  times, it leaves a world where it was called once.
\<close>

theorem close_request_guard_counterexample:
  "disableClose screen_A = Some True \<and>
   (case render_slot 8
           (mc_viewportWidth (modal_content (projr (MultiScreenModal 8
              (counting_props [screen_A, screen_B]) (Some screen_A) 1000))))
           False id id
           (mc_onClose (modal_content (projr (MultiScreenModal 8
              (counting_props [screen_A, screen_B]) (Some screen_A) 1000))))
           (mc_screens (modal_content (projr (MultiScreenModal 8
              (counting_props [screen_A, screen_B]) (Some screen_A) 1000))))
           0 () of
      Inr (Some sl) \<Rightarrow> closeModal (body (slot_screen sl)) 0 = 1 \<and>
                       closeModal (body (slot_screen sl)) 0 \<noteq> 0
    | _ \<Rightarrow> False)"
  by (simp add: MultiScreenModal_def Let_def defaultProps_onClose_def render_slot_def
      getScreen_def renderScreen_def)

text \<open>
  Claim C2, amended. Every close request that comes through the modal primitive (the
  \<open>onClose\<close> it is given, behind its close affordance) passes a guard on the active screen:
  the render does not throw; if the active screen's \<open>disableClose\<close> is true, the handler
  leaves the world as it is (\<open>onClose\<close> is not called) and the close button is hidden; if it
  is false or absent, the handler is one call of the \<open>onClose\<close> in force and the close button
  is shown; the \<open>onClose\<close> in force is the supplied one, and the no-op when none is supplied,
  so that the request then also leaves the world as it is.
\<close>

theorem close_affordance_guard:
  "\<not> isl (MultiScreenModal GU props (Some cs) viewport) \<and>
   (disableClose cs = Some True \<longrightarrow>
      modal_onClose (projr (MultiScreenModal GU props (Some cs) viewport)) w = w \<and>
      \<not> modal_closeButton (projr (MultiScreenModal GU props (Some cs) viewport))) \<and>
   (disableClose cs \<noteq> Some True \<longrightarrow>
      modal_onClose (projr (MultiScreenModal GU props (Some cs) viewport)) w
        = defaultProps_onClose (onClose props) w \<and>
      modal_closeButton (projr (MultiScreenModal GU props (Some cs) viewport))) \<and>
   (\<forall>f. onClose props = Some f \<longrightarrow> defaultProps_onClose (onClose props) w = f w) \<and>
   (onClose props = None \<longrightarrow>
      defaultProps_onClose (onClose props) w = w \<and>
      modal_onClose (projr (MultiScreenModal GU props (Some cs) viewport)) w = w)"
  by (auto simp add: MultiScreenModal_Some handleModalClose_def truthy_iff
      defaultProps_onClose_def noop_def)

text \<open>
  The close-guard scenario: with screens A (\<open>disableClose\<close> true) and B, at step 0 the handler
  does not call \<open>onClose\<close>; after \<open>next()\<close> the current screen is B and the handler calls it
  once; without an \<open>onClose\<close> the render and the handler still go through.
\<close>

theorem close_affordance_guard_witness:
  "currentScreen \<lparr>steps_state = useSteps_init, screensState = [screen_A, screen_B]\<rparr>
     = Some screen_A \<and>
   modal_onClose (projr (MultiScreenModal 8 (counting_props [screen_A, screen_B])
       (Some screen_A) 1000)) 0 = 0 \<and>
   currentScreen \<lparr>steps_state = useSteps_next 2 useSteps_init,
                  screensState = [screen_A, screen_B]\<rparr>
     = Some screen_B \<and>
   modal_onClose (projr (MultiScreenModal 8 (counting_props [screen_A, screen_B])
       (Some screen_B) 1000)) 0 = 1 \<and>
   \<not> isl (MultiScreenModal 8 (headless_props [screen_A, screen_B]) (Some screen_B) 1000) \<and>
   modal_onClose (projr (MultiScreenModal 8 (headless_props [screen_A, screen_B])
       (Some screen_B) 1000)) 0 = 0"
  using close_affordance_guard [of 8 "counting_props [screen_A, screen_B]" screen_A 1000 0]
    close_affordance_guard [of 8 "counting_props [screen_A, screen_B]" screen_B 1000 0]
    close_affordance_guard [of 8 "headless_props [screen_A, screen_B]" screen_B 1000 0]
  by (simp add: currentScreen_def getScreen_def useSteps_init_def useSteps_next_def
      defaultProps_onClose_def)

text \<open>
  Claim C10. Whatever the active screen \<open>cs\<close> and its \<open>disableClose\<close>, the component hands
  the \<open>onClose\<close> in force to \<^verbatim>\<open>ModalContent\<close> as it is, and the body of every screen \<open>scr\<close>
  is its content applied to an interface whose \<open>closeModal\<close> is that \<open>onClose\<close>: calling it is
  calling the supplied \<open>onClose\<close>, also when \<open>disableClose\<close> of the active screen is true and
  the handler of the modal's close affordance does nothing.
\<close>

theorem content_closeModal_unguarded:
  assumes "MultiScreenModal GU props (Some cs) viewport = Inr m"
    and "content scr = Some c"
  shows "renderScreen sm p n (mc_onClose (modal_content m)) scr
           = Inr \<lparr>heading_style = (if sm then ''title4'' else ''title3''),
                  heading = title scr,
                  body = c \<lparr>prevScreen = p, nextScreen = n,
                            closeModal = defaultProps_onClose (onClose props)\<rparr>\<rparr> \<and>
         (\<forall>f. onClose props = Some f \<longrightarrow> mc_onClose (modal_content m) w = f w) \<and>
         (disableClose cs = Some True \<longrightarrow> modal_onClose m w = w)"
  using assms
  by (auto simp add: MultiScreenModal_Some renderScreen_def defaultProps_onClose_def
      handleModalClose_def truthy_iff)

theorem content_closeModal_unguarded_witness:
  "MultiScreenModal 8 (counting_props [screen_A, screen_B]) (Some screen_A) 1000
     = Inr \<lparr>modal_padding = 0, modal_width = 640,
            modal_onClose = handleModalClose (Some True) Suc,
            modal_visible = Some True, modal_closeButton = False,
            modal_content = \<lparr>mc_screens = [screen_A, screen_B], mc_onClose = Suc,
                              mc_viewportWidth = 968\<rparr>\<rparr> \<and>
   disableClose screen_A = Some True \<and>
   map_sum id (\<lambda>r. closeModal (body r) 0) (renderScreen False id id Suc screen_A) = Inr 1 \<and>
   handleModalClose (Some True) Suc 0 = 0"
  using content_closeModal_unguarded [of 8 "counting_props [screen_A, screen_B]" screen_A 1000
      "\<lparr>modal_padding = 0, modal_width = 640,
            modal_onClose = handleModalClose (Some True) Suc,
            modal_visible = Some True, modal_closeButton = False,
            modal_content = \<lparr>mc_screens = [screen_A, screen_B], mc_onClose = Suc,
                              mc_viewportWidth = 968\<rparr>\<rparr>" screen_A "\<lambda>api. api" False id id 0]
  by (simp add: MultiScreenModal_Some defaultProps_onClose_def or_default_def
      DEFAULT_MODAL_WIDTH_def truthy_def)

subsection \<open>Widths\<close>



subsection \<open>Steps without a screen\<close>

text \<open>
  For every index outside the bounds of the screen list, \<open>getScreen\<close> is \<^verbatim>\<open>undefined\<close> and
  the slot of that step is rendered as nothing: the guard \<^verbatim>\<open>stepScreen &&\<close> of line 180.
\<close>

lemma out_of_range_slot_skipped:
  assumes "i < 0 \<or> int (length ss) \<le> i"
  shows "getScreen ss i = None \<and> render_slot GU V sm p n oc ss i a = Inr None"
  using getScreen_outside [OF assms]
  by (simp add: render_slot_def)

text \<open>
  When the list is replaced by one that no longer covers the current step, the slot of that
  step is skipped, and the effect of lines 128--130 hands the \<^verbatim>\<open>undefined\<close> current screen
  to the outer component, whose next render throws on line 21.
\<close>

lemma controller_replace_uncovered_step:
  assumes "int (length new) \<le> step (steps_state (ctl_useScreens c))"
  shows "controller_slot GU viewport sm p n a (controller_replace new c) = Inr None \<and>
         ctl_currentScreen (controller_replace new c) = None \<and>
         controller_render GU viewport (controller_replace new c) = Inl TypeError"
proof -
  have gone: "getScreen new (step (steps_state (ctl_useScreens c))) = None"
    using assms by (simp add: getScreen_outside)
  have slot: "controller_slot GU viewport sm p n a (controller_replace new c) = Inr None"
    using gone
    by (simp add: controller_slot_def controller_replace_def onScreenChange_effect_def
        updateCurrentScreen_def setScreensState_def render_slot_def)
  have cur: "ctl_currentScreen (controller_replace new c) = None"
    using gone
    by (simp add: controller_replace_def onScreenChange_effect_def updateCurrentScreen_def
        setScreensState_def currentScreen_def)
  have "controller_render GU viewport (controller_replace new c) = Inl TypeError"
    by (simp add: controller_render_def cur MultiScreenModal_undefined_current)
  with slot cur show ?thesis by simp
qed

text \<open>
  Claim C9 says that the shell skips a slot without a screen and does not throw, in particular
  when the list is replaced by a shorter one that no longer covers a step in flight. The
  code does so for the slot only. With three screens and the third one current (step 2,
  rendered without a throw), the caller replaces the list by the first two: the step is
  still 2, \<open>getScreen(2)\<close> is \<^verbatim>\<open>undefined\<close>, the slot of the step is rendered as nothing,
  the current screen handed to the outer component is \<^verbatim>\<open>undefined\<close>, and the next render
  of \<^verbatim>\<open>MultiScreenModal\<close> throws a \<^verbatim>\<open>TypeError\<close>.
\<close>

theorem shrunk_list_current_step_throws:
  "step (steps_state (ctl_useScreens at_third_screen)) = 2 \<and>
   ctl_currentScreen at_third_screen = Some (screen_of_width 500) \<and>
   \<not> isl (controller_render 8 1000 at_third_screen) \<and>
   \<not> isl (controller_slot 8 1000 False id id () at_third_screen) \<and>
   screensState (ctl_useScreens list_shrunk) = [screen_A, screen_B] \<and>
   step (steps_state (ctl_useScreens list_shrunk)) = 2 \<and>
   getScreen (screensState (ctl_useScreens list_shrunk)) 2 = None \<and>
   controller_slot 8 1000 False id id () list_shrunk = Inr None \<and>
   ctl_currentScreen list_shrunk = None \<and>
   controller_render 8 1000 list_shrunk = Inl TypeError"
  by (simp add: controller_mount_def controller_navigate_def controller_replace_def
      onScreenChange_effect_def updateCurrentScreen_def controller_render_def
      controller_slot_def useScreens_init_def useSteps_init_def useSteps_next_def
      setScreensState_def currentScreen_def getScreen_def render_slot_def renderScreen_def
      MultiScreenModal_def Let_def)

section \<open>The animation of a transition\<close>

text \<open>
  Claim C5. The container goes from automatic sizing to a pinned height and back. When a
  transition starts and the flag of the gate, as the render bound it, says
  animate-immediately, \<open>applyStaticHeight\<close> is left as it is, so an automatically sized
  container stays so (the first mount is such a start). When it starts and the flag is
  false, the container gets the fixed height that the height spring animates, and the target
  of that spring is the height measured last, with the preset \<open>swift\<close>. The pinning is
  released when the transition comes to rest with the status \<open>update\<close>, not with \<open>enter\<close> or
  \<open>leave\<close>; of all events, only that one takes a pinned container back to automatic sizing,
  and only a start with a false flag pins an automatically sized one.
\<close>

theorem height_pinning:
  "(immediate \<longrightarrow>
      applyStaticHeight (onStart immediate s) = applyStaticHeight s \<and>
      (\<not> applyStaticHeight s \<longrightarrow> container_height (onStart immediate s) a = Auto)) \<and>
   container_height
      (onStart (immediateAnimation (deferred modalContent_init)) modalContent_init) a = Auto \<and>
   (\<not> immediate \<longrightarrow> container_height (onStart immediate s) a = Fixed a) \<and>
   height_spring immediate (setHeight h s)
     = \<lparr>spring_config = springs_swift, spring_to_height = Some h, spring_immediate = immediate\<rparr> \<and>
   applyStaticHeight (setHeight h s) = applyStaticHeight s \<and>
   container_height (onRest ''update'' s) a = Auto \<and>
   onRest ''enter'' s = s \<and>
   onRest ''leave'' s = s \<and>
   ((applyStaticHeight s \<and> \<not> applyStaticHeight (modalContent_step e s))
      = (applyStaticHeight s \<and> e = Rest ''update'')) \<and>
   ((\<not> applyStaticHeight s \<and> applyStaticHeight (modalContent_step e s))
      = (\<not> applyStaticHeight s \<and> e = Start False))"
proof -
  have start: "applyStaticHeight (onStart b s) = (applyStaticHeight s \<or> \<not> b)" for b
    by (simp add: onStart_def Let_def)
  have rest: "applyStaticHeight (onRest st s) = (applyStaticHeight s \<and> st \<noteq> ''update'')" for st
    by (simp add: onRest_def)
  have measured: "applyStaticHeight (setHeight k s) = applyStaticHeight s" for k
    by (simp add: setHeight_def)
  have first: "container_height
      (onStart (immediateAnimation (deferred modalContent_init)) modalContent_init) a = Auto"
    by (simp add: container_height_def onStart_def Let_def modalContent_init_def
        immediateAnimation_def useDeferredAnimation_init_def)
  have spring: "height_spring immediate (setHeight h s)
     = \<lparr>spring_config = springs_swift, spring_to_height = Some h, spring_immediate = immediate\<rparr>"
    by (simp add: height_spring_def setHeight_def)
  have idle: "onRest ''enter'' s = s" "onRest ''leave'' s = s"
    by (simp_all add: onRest_def)
  have release: "(applyStaticHeight s \<and> \<not> applyStaticHeight (modalContent_step e s))
      = (applyStaticHeight s \<and> e = Rest ''update'')"
    by (cases e) (auto simp add: start rest measured)
  have pin: "(\<not> applyStaticHeight s \<and> applyStaticHeight (modalContent_step e s))
      = (\<not> applyStaticHeight s \<and> e = Start False)"
    by (cases e) (auto simp add: start rest measured)
  show ?thesis
    using first spring idle release pin
    by (simp add: container_height_def start rest measured)
qed

theorem height_pinning_witness:
  "container_height (onStart True modalContent_init) (120::int) = Auto \<and>
   container_height (onStart False (onStart True modalContent_init)) (120::int) = Fixed 120 \<and>
   spring_to_height (height_spring False (setHeight 200 modalContent_init)) = Some 200 \<and>
   container_height (onRest ''update'' (onStart False modalContent_init)) (120::int) = Auto \<and>
   container_height (onRest ''enter'' (onStart False modalContent_init)) (120::int) = Fixed 120"
  using height_pinning [of True modalContent_init "120::int" 200 "Rest ''update''"]
    height_pinning [of False "onStart True modalContent_init" "120::int" 200 "Rest ''update''"]
    height_pinning [of False "onStart False modalContent_init" "120::int" 200 "Rest ''update''"]
    height_pinning [of False modalContent_init "120::int" 200 "Rest ''update''"]
  by (simp add: modalContent_init_def container_height_def)

text \<open>
  Claim C7. For every direction \<open>d\<close>, the entering screen starts displaced horizontally by
  \<open>5 * GU * d\<close> pixels and the leaving screen ends displaced by \<open>- 5 * GU * d\<close> pixels. For a
  positive base unit: with \<open>d = +1\<close> (after \<open>next()\<close>) the content comes in from the right and
  goes out to the left, and with \<open>d = -1\<close> (after \<open>prev()\<close>) both are reversed.
\<close>

theorem slide_displacements:
  "style_transform (transition_from GU d) = translate3d (5 * GU * d) 0 0 \<and>
   style_transform (transition_leave GU d) = translate3d (- 5 * GU * d) 0 0 \<and>
   (0 < GU \<longrightarrow>
      0 < translate_x (style_transform (transition_from GU 1)) \<and>
      translate_x (style_transform (transition_leave GU 1)) < 0 \<and>
      translate_x (style_transform (transition_from GU (- 1))) < 0 \<and>
      0 < translate_x (style_transform (transition_leave GU (- 1))))"
  by (simp add: transition_from_def transition_leave_def)

theorem slide_displacements_witness:
  "style_transform (transition_from 8 1) = translate3d 40 0 0 \<and>
   style_transform (transition_leave 8 1) = translate3d (- 40) 0 0 \<and>
   style_transform (transition_from 8 (- 1)) = translate3d (- 40) 0 0 \<and>
   style_transform (transition_leave 8 (- 1)) = translate3d 40 0 0 \<and>
   0 < translate_x (style_transform (transition_from 8 1)) \<and>
   translate_x (style_transform (transition_leave 8 1)) < 0"
  using slide_displacements [of 8 1] slide_displacements [of 8 "- 1"]
  by simp

text \<open>
  Claim C8. The preset of the transition is \<open>instant\<close> for the phase \<open>leave\<close> and \<open>smooth\<close> for
  every other phase, \<open>enter\<close> and \<open>update\<close> among them; the preset of the height spring is
  \<open>swift\<close>.
\<close>

theorem easing_presets:
  "transition_config ''leave'' = springs_instant \<and>
   transition_config ''enter'' = springs_smooth \<and>
   transition_config ''update'' = springs_smooth \<and>
   (state \<noteq> ''leave'' \<longrightarrow> transition_config state = springs_smooth) \<and>
   spring_config (height_spring immediate s) = springs_swift"
  by (simp add: transition_config_def height_spring_def)

theorem easing_presets_witness:
  "transition_config ''leave'' = springs_instant \<and>
   transition_config ''enter'' = springs_smooth \<and>
   transition_config ''update'' = springs_smooth \<and>
   spring_config (height_spring False modalContent_init) = springs_swift"
  using easing_presets [of "''enter''" False modalContent_init]
  by simp

end
